theory Spec2Isabelle
  imports Main
begin

section \<open>Task status poller of the text-digest plugin\<close>

text \<open>
  The script \<^verbatim>\<open>getTaskRow \<dots> loadTaskStatus\<close> of the text-digest plugin is
  event driven: a call runs to completion, issues network requests and timers, and
  the continuations of a request run when it settles. The model follows that shape.
  A state holds the document (rows by element id), the trace of everything a call
  does in program order, and the requests and timers that are outstanding. Each
  JavaScript function is a state transformer; each promise callback is a
  transformer of its own, named after the function and its position in the chain.
  A thrown exception is the left summand of a sum, together with the state in
  which it was thrown.

  What the model leaves out: time (a timer keeps its delay but may fire at any
  moment), and the parts of the page the script never touches. The four members of a
  status body are strings, as the script uses them.
\<close>

subsection \<open>Document\<close>

text \<open>
  A row is the list of its cells (\<^verbatim>\<open>row.cells\<close>). Of a cell the script reads
  \<^verbatim>\<open>firstChild\<close> and writes \<^verbatim>\<open>innerText\<close>; of the first child it writes
  \<^verbatim>\<open>disabled\<close>.
\<close>

record button =
  disabled :: bool

record cell =
  innerText :: string
  firstChild :: "button option"

record row =
  cells :: "cell list"

text \<open>Indexing a collection out of range gives \<^verbatim>\<open>undefined\<close>, never an exception.\<close>

definition item :: "'a list \<Rightarrow> nat \<Rightarrow> 'a option" where
  "item xs i = (if i < length xs then Some (xs ! i) else None)"

subsection \<open>Values, errors, effects\<close>

datatype js_error =
    TypeError          \<comment> \<open>a property read on \<^verbatim>\<open>null\<close> or \<^verbatim>\<open>undefined\<close>\<close>
  | SyntaxError        \<comment> \<open>\<^verbatim>\<open>response.json()\<close> rejects\<close>
  | HttpError string   \<comment> \<open>\<^verbatim>\<open>new Error(response.statusText)\<close>\<close>
  | FetchFailed        \<comment> \<open>\<^verbatim>\<open>fetch\<close> rejects: no response at all\<close>

datatype http_method = GET | POST

record task_status_record =
  task_id :: string
  task_name :: string
  task_status :: string
  task_result :: string

text \<open>
  The parsed body of a status response: \<^verbatim>\<open>res.data\<close> is the record, or the
  document has no such member.
\<close>

datatype status_body = NoData | Data task_status_record

text \<open>
  What a \<^verbatim>\<open>fetch\<close> settles with: a rejection, or a response with its status
  code, its status text and the outcome of \<^verbatim>\<open>response.json()\<close>
  (\<open>None\<close> when the body is not JSON).
\<close>

datatype 'b response = Rejected | Response nat string "'b option"

datatype event =
    ConsoleLog string "string option list"
  | ConsoleError string string js_error
  | Fetch http_method string
  | SetTimeout nat string string
  | SetDisabled string bool
  | SetInnerText string nat string

datatype pending =
    AwaitStatus string             \<comment> \<open>the chain of \<^verbatim>\<open>fetchTaskStatus(brokerId)\<close>\<close>
  | AwaitRegister string           \<comment> \<open>the chain of \<^verbatim>\<open>registerFileTransformation(brokerId)\<close>\<close>
  | Timer nat string string        \<comment> \<open>delay, and the \<^verbatim>\<open>task_id\<close>, \<^verbatim>\<open>task_name\<close> the callback closes over\<close>

record state =
  document :: "string \<rightharpoonup> row"
  events :: "event list"
  outstanding :: "pending list"

subsection \<open>Primitive effects\<close>

definition console_log :: "string \<Rightarrow> string option list \<Rightarrow> state \<Rightarrow> state" where
  "console_log msg args s = s\<lparr>events := events s @ [ConsoleLog msg args]\<rparr>"

definition console_error :: "string \<Rightarrow> string \<Rightarrow> js_error \<Rightarrow> state \<Rightarrow> state" where
  "console_error msg brokerId err s = s\<lparr>events := events s @ [ConsoleError msg brokerId err]\<rparr>"

text \<open>
  \<^verbatim>\<open>fetch\<close> and \<^verbatim>\<open>setTimeout\<close> return at once. The call goes into the trace, and
  the promise chain or callback that waits for it goes onto the outstanding list.
\<close>

definition fetch :: "http_method \<Rightarrow> string \<Rightarrow> pending \<Rightarrow> state \<Rightarrow> state" where
  "fetch m url chain s =
     s\<lparr>events := events s @ [Fetch m url], outstanding := outstanding s @ [chain]\<rparr>"

definition setTimeout :: "nat \<Rightarrow> string \<Rightarrow> string \<Rightarrow> state \<Rightarrow> state" where
  "setTimeout ms tid tname s =
     s\<lparr>events := events s @ [SetTimeout ms tid tname],
       outstanding := outstanding s @ [Timer ms tid tname]\<rparr>"

text \<open>
  A write through a cell or button reference. The reference was obtained from the row
  with the given element id, at the given cell index. A write of \<^verbatim>\<open>innerText\<close> is
  recorded in the text of the cell only: the script writes text to cells 1 and 4,
  which hold text, and reads a first child in cell 3 alone.
\<close>

definition update_cell :: "string \<Rightarrow> nat \<Rightarrow> (cell \<Rightarrow> cell) \<Rightarrow> (string \<rightharpoonup> row) \<Rightarrow> (string \<rightharpoonup> row)" where
  "update_cell rowId i f d =
     (case d rowId of
        None \<Rightarrow> d
      | Some r \<Rightarrow> d(rowId \<mapsto> r\<lparr>cells := (cells r)[i := f (cells r ! i)]\<rparr>))"

definition set_innerText :: "string \<Rightarrow> nat \<Rightarrow> string \<Rightarrow> state \<Rightarrow> state" where
  "set_innerText rowId i txt s =
     s\<lparr>document := update_cell rowId i (\<lambda>c. c\<lparr>innerText := txt\<rparr>) (document s),
       events := events s @ [SetInnerText rowId i txt]\<rparr>"

definition set_disabled :: "string \<Rightarrow> nat \<Rightarrow> bool \<Rightarrow> state \<Rightarrow> state" where
  "set_disabled rowId i v s =
     s\<lparr>document := update_cell rowId i
         (\<lambda>c. c\<lparr>firstChild := map_option (\<lambda>b. b\<lparr>disabled := v\<rparr>) (firstChild c)\<rparr>) (document s),
       events := events s @ [SetDisabled rowId v]\<rparr>"

subsection \<open>Lookup helpers\<close>

definition task_row_id :: "string \<Rightarrow> string" where
  "task_row_id brokerId = ''ct-'' @ brokerId"

definition getTaskRow :: "string \<Rightarrow> state \<Rightarrow> row option" where
  "getTaskRow brokerId s = document s (task_row_id brokerId)"

text \<open>
  The three cell helpers read \<^verbatim>\<open>row.cells\<close> at once: on \<^verbatim>\<open>null\<close> that read
  throws.
\<close>

definition getTaskLoadBtn :: "row option \<Rightarrow> js_error + button option" where
  "getTaskLoadBtn row =
     (case row of
        None \<Rightarrow> Inl TypeError
      | Some r \<Rightarrow>
          Inr (case item (cells r) 3 of None \<Rightarrow> None | Some c \<Rightarrow> firstChild c))"

definition getTaskStatusCell :: "row option \<Rightarrow> js_error + cell option" where
  "getTaskStatusCell row =
     (case row of None \<Rightarrow> Inl TypeError | Some r \<Rightarrow> Inr (item (cells r) 1))"

definition getTaskResultCell :: "row option \<Rightarrow> js_error + cell option" where
  "getTaskResultCell row =
     (case row of None \<Rightarrow> Inl TypeError | Some r \<Rightarrow> Inr (item (cells r) 4))"

subsection \<open>The control\<close>

text \<open>
  \<^verbatim>\<open>row && getTaskLoadBtn(row) || null\<close>: the helper is called on a row only.
\<close>

definition guarded_btn :: "row option \<Rightarrow> js_error + button option" where
  "guarded_btn row = (case row of None \<Rightarrow> Inr None | Some r \<Rightarrow> getTaskLoadBtn (Some r))"

definition disableTaskLoadBtn :: "string \<Rightarrow> state \<Rightarrow> js_error \<times> state + state" where
  "disableTaskLoadBtn brokerId s =
     (case guarded_btn (getTaskRow brokerId s) of
        Inl e \<Rightarrow> Inl (e, s)
      | Inr None \<Rightarrow> Inr s
      | Inr (Some btn) \<Rightarrow> Inr (set_disabled (task_row_id brokerId) 3 True s))"

definition enableTaskLoadBtn :: "string \<Rightarrow> state \<Rightarrow> js_error \<times> state + state" where
  "enableTaskLoadBtn brokerId s =
     (case guarded_btn (getTaskRow brokerId s) of
        Inl e \<Rightarrow> Inl (e, s)
      | Inr None \<Rightarrow> Inr s
      | Inr (Some btn) \<Rightarrow> Inr (set_disabled (task_row_id brokerId) 3 False s))"

subsection \<open>fetchTaskStatus\<close>

text \<open>The call itself only issues the request; the chain waits for it.\<close>

definition fetchTaskStatus :: "string \<Rightarrow> state \<Rightarrow> state" where
  "fetchTaskStatus brokerId s =
     fetch GET (''/digest/task/'' @ brokerId) (AwaitStatus brokerId) s"

definition fetchTaskStatus_then1 :: "nat \<Rightarrow> string \<Rightarrow> status_body option \<Rightarrow> js_error + status_body" where
  "fetchTaskStatus_then1 status statusText json =
     (if status = 200 \<or> status = 404
      then (case json of None \<Rightarrow> Inl SyntaxError | Some res \<Rightarrow> Inr res)
      else Inl (HttpError statusText))"

definition registerFileTransformation :: "string \<Rightarrow> state \<Rightarrow> state" where
  "registerFileTransformation brokerId s =
     fetch POST (''/digest/cp/register/'' @ brokerId) (AwaitRegister brokerId) s"

text \<open>\<^verbatim>\<open>if (cell) { cell.innerText = txt; }\<close>, for the cell found at index \<open>i\<close> of the row.\<close>

definition assign_innerText :: "cell option \<Rightarrow> string \<Rightarrow> nat \<Rightarrow> string \<Rightarrow> state \<Rightarrow> state" where
  "assign_innerText cell rowId i txt s =
     (case cell of None \<Rightarrow> s | Some c \<Rightarrow> set_innerText rowId i txt s)"

text \<open>
  The second callback. The two cell lookups come before every effect, so an exception
  of theirs leaves the state as it was.
\<close>

definition fetchTaskStatus_then2 :: "string \<Rightarrow> status_body \<Rightarrow> state \<Rightarrow> js_error \<times> state + state" where
  "fetchTaskStatus_then2 brokerId res s =
     (case res of
        NoData \<Rightarrow> Inl (TypeError, s)
      | Data d \<Rightarrow>
          (let taskRow = getTaskRow brokerId s in
           case getTaskStatusCell taskRow of
             Inl e \<Rightarrow> Inl (e, s)
           | Inr statusCell \<Rightarrow>
               (case getTaskResultCell taskRow of
                  Inl e \<Rightarrow> Inl (e, s)
                | Inr resultCell \<Rightarrow>
                    (let rowId = task_row_id brokerId;
                         s1 = assign_innerText statusCell rowId 1 (task_status d) s;
                         args = [Some (task_id d), Some (task_name d),
                                 Some (task_status d), Some (task_result d)]
                     in if task_status d = ''SUCCESS'' then
                          Inr (registerFileTransformation brokerId
                                (assign_innerText resultCell rowId 4 (task_result d)
                                  (console_log ''Task complete!'' args s1)))
                        else if task_status d = ''FAILED'' \<or> task_status d = ''NOT FOUND'' then
                          Inr (assign_innerText resultCell rowId 4 ''No Result''
                                (console_log ''Task failed!'' args s1))
                        else
                          Inr (setTimeout 1500 (task_id d) (task_name d)
                                (assign_innerText resultCell rowId 4 ''Pending''
                                  (console_log ''Task pending.'' args s1)))))))"

definition fetchTaskStatus_catch :: "string \<Rightarrow> js_error \<Rightarrow> state \<Rightarrow> js_error \<times> state + state" where
  "fetchTaskStatus_catch brokerId err s =
     enableTaskLoadBtn brokerId (console_error ''Failed to fetch status'' brokerId err s)"

text \<open>
  The whole chain \<^verbatim>\<open>.then(\<dots>).then(\<dots>).catch(\<dots>)\<close>, run when the request settles.
  A left result is a rejection that nothing handles.
\<close>

definition fetchTaskStatus_settled :: "string \<Rightarrow> status_body response \<Rightarrow> state \<Rightarrow> js_error \<times> state + state" where
  "fetchTaskStatus_settled brokerId resp s =
     (case (case resp of
              Rejected \<Rightarrow> Inl (FetchFailed, s)
            | Response status statusText json \<Rightarrow>
                (case fetchTaskStatus_then1 status statusText json of
                   Inl e \<Rightarrow> Inl (e, s)
                 | Inr res \<Rightarrow> fetchTaskStatus_then2 brokerId res s)) of
        Inl (err, s') \<Rightarrow> fetchTaskStatus_catch brokerId err s'
      | Inr s' \<Rightarrow> Inr s')"

text \<open>The timer callback of the pending branch.\<close>

definition refresh_callback :: "string \<Rightarrow> string \<Rightarrow> state \<Rightarrow> state" where
  "refresh_callback tid tname s =
     fetchTaskStatus tid (console_log ''Refreshing task status'' [Some tid, Some tname] s)"

subsection \<open>registerFileTransformation\<close>

text \<open>
  The first callback returns the parsed confirmation on 201 and nothing
  (\<^verbatim>\<open>undefined\<close>) on 400, after asking for the status again.
\<close>

definition registerFileTransformation_then1 ::
  "string \<Rightarrow> nat \<Rightarrow> string \<Rightarrow> string option \<Rightarrow> state \<Rightarrow> js_error \<times> state + string option \<times> state" where
  "registerFileTransformation_then1 brokerId status statusText json s =
     (if status = 201
      then (case json of None \<Rightarrow> Inl (SyntaxError, s) | Some res \<Rightarrow> Inr (Some res, s))
      else if status = 400
      then Inr (None, fetchTaskStatus brokerId s)
      else Inl (HttpError statusText, s))"

definition registerFileTransformation_then2 :: "string \<Rightarrow> string option \<Rightarrow> state \<Rightarrow> state" where
  "registerFileTransformation_then2 brokerId res s =
     console_log ''File registered!'' [Some brokerId, res] s"

definition registerFileTransformation_catch :: "string \<Rightarrow> js_error \<Rightarrow> state \<Rightarrow> js_error \<times> state + state" where
  "registerFileTransformation_catch brokerId err s =
     enableTaskLoadBtn brokerId
       (console_error ''Failed to register transformation'' brokerId err s)"

definition registerFileTransformation_settled ::
  "string \<Rightarrow> string response \<Rightarrow> state \<Rightarrow> js_error \<times> state + state" where
  "registerFileTransformation_settled brokerId resp s =
     (case (case resp of
              Rejected \<Rightarrow> Inl (FetchFailed, s)
            | Response status statusText json \<Rightarrow>
                (case registerFileTransformation_then1 brokerId status statusText json s of
                   Inl x \<Rightarrow> Inl x
                 | Inr (res, s') \<Rightarrow> Inr (registerFileTransformation_then2 brokerId res s'))) of
        Inl (err, s') \<Rightarrow> registerFileTransformation_catch brokerId err s'
      | Inr s' \<Rightarrow> Inr s')"

subsection \<open>loadTaskStatus\<close>

definition loadTaskStatus :: "string \<Rightarrow> state \<Rightarrow> js_error \<times> state + state" where
  "loadTaskStatus brokerId s =
     (case disableTaskLoadBtn brokerId s of
        Inl x \<Rightarrow> Inl x
      | Inr s1 \<Rightarrow> Inr (fetchTaskStatus brokerId s1))"

subsection \<open>The event loop\<close>

text \<open>
  What can happen next is that an outstanding request settles, with whatever the
  server or the network decides, or that an outstanding timer fires. The occurrence
  is taken off the outstanding list and its continuation runs to completion. A step
  is \<open>None\<close> when the occurrence is not outstanding, or when the chain would end in a
  rejection that nothing handles.
\<close>

datatype occurrence =
    StatusSettles string "status_body response"
  | RegisterSettles string "string response"
  | TimerFires nat string string

definition take_off :: "pending \<Rightarrow> state \<Rightarrow> state" where
  "take_off p s = s\<lparr>outstanding := remove1 p (outstanding s)\<rparr>"

fun step :: "occurrence \<Rightarrow> state \<Rightarrow> state option" where
  "step (StatusSettles brokerId resp) s =
     (if AwaitStatus brokerId \<in> set (outstanding s)
      then (case fetchTaskStatus_settled brokerId resp (take_off (AwaitStatus brokerId) s) of
              Inl x \<Rightarrow> None
            | Inr s' \<Rightarrow> Some s')
      else None)"
| "step (RegisterSettles brokerId resp) s =
     (if AwaitRegister brokerId \<in> set (outstanding s)
      then (case registerFileTransformation_settled brokerId resp (take_off (AwaitRegister brokerId) s) of
              Inl x \<Rightarrow> None
            | Inr s' \<Rightarrow> Some s')
      else None)"
| "step (TimerFires ms tid tname) s =
     (if Timer ms tid tname \<in> set (outstanding s)
      then Some (refresh_callback tid tname (take_off (Timer ms tid tname) s))
      else None)"

fun run :: "occurrence list \<Rightarrow> state \<Rightarrow> state option" where
  "run [] s = Some s"
| "run (occ # occs) s = (case step occ s of None \<Rightarrow> None | Some s' \<Rightarrow> run occs s')"

subsection \<open>Observations\<close>

text \<open>The control of a handle: the first child of cell 3 of its row, if all three exist.\<close>

definition control :: "string \<Rightarrow> state \<Rightarrow> button option" where
  "control brokerId s =
     (case getTaskRow brokerId s of
        None \<Rightarrow> None
      | Some r \<Rightarrow> (case item (cells r) 3 of None \<Rightarrow> None | Some c \<Rightarrow> firstChild c))"

definition result_cell :: "string \<Rightarrow> state \<Rightarrow> cell option" where
  "result_cell brokerId s =
     (case getTaskRow brokerId s of None \<Rightarrow> None | Some r \<Rightarrow> item (cells r) 4)"

definition is_status_request :: "pending \<Rightarrow> bool" where
  "is_status_request p = (case p of AwaitStatus h \<Rightarrow> True | _ \<Rightarrow> False)"

text \<open>Events that put a request or a timer in flight, and events that switch a control.\<close>

definition scheduling :: "event \<Rightarrow> bool" where
  "scheduling e = (case e of Fetch m url \<Rightarrow> True | SetTimeout ms tid tn \<Rightarrow> True | _ \<Rightarrow> False)"

definition toggling :: "event \<Rightarrow> bool" where
  "toggling e = (case e of SetDisabled rowId v \<Rightarrow> True | _ \<Rightarrow> False)"

text \<open>
  The transport failures of the two requests: no response, or a status code that the
  first callback does not accept.
\<close>

definition status_transport_failure :: "status_body response \<Rightarrow> bool" where
  "status_transport_failure resp =
     (case resp of Rejected \<Rightarrow> True | Response code phrase json \<Rightarrow> code \<noteq> 200 \<and> code \<noteq> 404)"

definition register_transport_failure :: "string response \<Rightarrow> bool" where
  "register_transport_failure resp =
     (case resp of Rejected \<Rightarrow> True | Response code phrase json \<Rightarrow> code \<noteq> 201 \<and> code \<noteq> 400)"

text \<open>The error such a response reaches the \<^verbatim>\<open>catch\<close> with.\<close>

definition thrown :: "'b response \<Rightarrow> js_error" where
  "thrown resp = (case resp of Rejected \<Rightarrow> FetchFailed | Response code phrase json \<Rightarrow> HttpError phrase)"

definition terminal_failure :: "string \<Rightarrow> bool" where
  "terminal_failure st = (st = ''FAILED'' \<or> st = ''NOT FOUND'')"

definition pending_status :: "string \<Rightarrow> bool" where
  "pending_status st = (st \<noteq> ''SUCCESS'' \<and> st \<noteq> ''FAILED'' \<and> st \<noteq> ''NOT FOUND'')"

subsection \<open>A page to run the script on\<close>

text \<open>
  A row as the plugin's table has it: five cells, the control in cell 3. The page
  \<open>page_with h\<close> holds that row for the handle \<open>h\<close> and nothing else; \<open>page_without\<close>
  holds no row.
\<close>

definition text_cell :: "string \<Rightarrow> cell" where
  "text_cell txt = \<lparr>innerText = txt, firstChild = None\<rparr>"

definition control_cell :: "bool \<Rightarrow> cell" where
  "control_cell v = \<lparr>innerText = ''Load'', firstChild = Some \<lparr>disabled = v\<rparr>\<rparr>"

definition task_row :: "string \<Rightarrow> row" where
  "task_row h = \<lparr>cells = [text_cell h, text_cell [], text_cell [], control_cell False, text_cell []]\<rparr>"

definition page_with :: "string \<Rightarrow> state" where
  "page_with h = \<lparr>document = [task_row_id h \<mapsto> task_row h], events = [], outstanding = []\<rparr>"

definition page_without :: state where
  "page_without = \<lparr>document = Map.empty, events = [], outstanding = []\<rparr>"

definition status_reply :: "string \<Rightarrow> string \<Rightarrow> string \<Rightarrow> status_body response" where
  "status_reply tid st res =
     Response 200 ''OK''
       (Some (Data \<lparr>task_id = tid, task_name = ''sleeper'', task_status = st, task_result = res\<rparr>))"

section \<open>Properties\<close>

subsection \<open>What each primitive leaves alone\<close>

lemma outstanding_prims [simp]:
  "outstanding (console_log m a s) = outstanding s"
  "outstanding (console_error m h e s) = outstanding s"
  "outstanding (set_innerText rid i txt s) = outstanding s"
  "outstanding (set_disabled rid i v s) = outstanding s"
  "outstanding (assign_innerText c rid i txt s) = outstanding s"
  "outstanding (fetch me url p s) = outstanding s @ [p]"
  "outstanding (setTimeout ms tid tn s) = outstanding s @ [Timer ms tid tn]"
  "outstanding (take_off p s) = remove1 p (outstanding s)"
  by (simp_all add: console_log_def console_error_def set_innerText_def set_disabled_def
        assign_innerText_def fetch_def setTimeout_def take_off_def split: option.splits)

lemma events_prims [simp]:
  "events (console_log m a s) = events s @ [ConsoleLog m a]"
  "events (console_error m h e s) = events s @ [ConsoleError m h e]"
  "events (set_innerText rid i txt s) = events s @ [SetInnerText rid i txt]"
  "events (set_disabled rid i v s) = events s @ [SetDisabled rid v]"
  "events (assign_innerText c rid i txt s) =
     events s @ (case c of None \<Rightarrow> [] | Some x \<Rightarrow> [SetInnerText rid i txt])"
  "events (fetch me url p s) = events s @ [Fetch me url]"
  "events (setTimeout ms tid tn s) = events s @ [SetTimeout ms tid tn]"
  "events (take_off p s) = events s"
  by (simp_all add: console_log_def console_error_def set_innerText_def set_disabled_def
        assign_innerText_def fetch_def setTimeout_def take_off_def split: option.splits)

lemma document_prims [simp]:
  "document (console_log m a s) = document s"
  "document (console_error m h e s) = document s"
  "document (fetch me url p s) = document s"
  "document (setTimeout ms tid tn s) = document s"
  "document (take_off p s) = document s"
  by (simp_all add: console_log_def console_error_def fetch_def setTimeout_def take_off_def)

lemma update_cell_apply:
  "update_cell rid i f d k =
     (if k = rid then map_option (\<lambda>r. r\<lparr>cells := (cells r)[i := f (cells r ! i)]\<rparr>) (d rid)
      else d k)"
  by (simp add: update_cell_def split: option.splits)

lemma document_writes_elsewhere [simp]:
  "k \<noteq> rid \<Longrightarrow> document (set_innerText rid i txt s) k = document s k"
  "k \<noteq> rid \<Longrightarrow> document (set_disabled rid i v s) k = document s k"
  "k \<noteq> rid \<Longrightarrow> document (assign_innerText c rid i txt s) k = document s k"
  by (simp_all add: set_innerText_def set_disabled_def assign_innerText_def update_cell_apply
        split: option.splits)

subsection \<open>Reading a cell after a write\<close>

lemma nth_list_update_app:
  "(xs[i := f (xs ! i)]) ! j = (if i = j \<and> j < length xs then f (xs ! j) else xs ! j)"
  by (cases "i < length xs") (auto simp: nth_list_update list_update_beyond)

lemma item_list_update_app:
  "item (xs[i := f (xs ! i)]) j = (if i = j then map_option f (item xs j) else item xs j)"
  by (simp add: item_def nth_list_update_app)

lemma getTaskRow_set_disabled:
  "getTaskRow k (set_disabled rid i v s) =
     (if task_row_id k = rid
      then map_option
             (\<lambda>r. r\<lparr>cells := (cells r)[i :=
                (\<lambda>c. c\<lparr>firstChild := map_option (\<lambda>b. b\<lparr>disabled := v\<rparr>) (firstChild c)\<rparr>) (cells r ! i)]\<rparr>)
             (getTaskRow k s)
      else getTaskRow k s)"
  by (simp add: getTaskRow_def set_disabled_def update_cell_apply)

lemma getTaskRow_set_innerText:
  "getTaskRow k (set_innerText rid i txt s) =
     (if task_row_id k = rid
      then map_option (\<lambda>r. r\<lparr>cells := (cells r)[i := (\<lambda>c. c\<lparr>innerText := txt\<rparr>) (cells r ! i)]\<rparr>)
             (getTaskRow k s)
      else getTaskRow k s)"
  by (simp add: getTaskRow_def set_innerText_def update_cell_apply)

lemma control_set_innerText [simp]: "control k (set_innerText rid i txt s) = control k s"
  by (cases "getTaskRow k s")
     (simp_all add: control_def getTaskRow_set_innerText item_list_update_app
        del: fun_upd_apply split: option.splits)

lemma item_Some_iff: "item xs i = Some x \<longleftrightarrow> i < length xs \<and> xs ! i = x"
  by (auto simp: item_def)

lemma item_None_iff: "item xs i = None \<longleftrightarrow> length xs \<le> i"
  by (auto simp: item_def)

lemma control_set_disabled:
  "control h (set_disabled (task_row_id h) 3 v s) =
     map_option (\<lambda>b. b\<lparr>disabled := v\<rparr>) (control h s)"
  by (cases "getTaskRow h s")
     (auto simp: control_def getTaskRow_set_disabled item_Some_iff item_None_iff
        split: option.splits)

lemma control_set_disabled_elsewhere:
  "task_row_id k \<noteq> rid \<Longrightarrow> control k (set_disabled rid i v s) = control k s"
  by (simp add: control_def getTaskRow_set_disabled)

lemma control_prims [simp]:
  "control k (console_log m a s) = control k s"
  "control k (console_error m h e s) = control k s"
  "control k (fetch me url p s) = control k s"
  "control k (setTimeout ms tid tn s) = control k s"
  "control k (take_off p s) = control k s"
  by (simp_all add: control_def getTaskRow_def)

lemma control_assign_innerText [simp]:
  "control k (assign_innerText c rid i txt s) = control k s"
  by (simp add: assign_innerText_def split: option.splits)

lemma result_cell_prims [simp]:
  "result_cell k (console_log m a s) = result_cell k s"
  "result_cell k (console_error m h e s) = result_cell k s"
  "result_cell k (fetch me url p s) = result_cell k s"
  "result_cell k (setTimeout ms tid tn s) = result_cell k s"
  "result_cell k (take_off p s) = result_cell k s"
  by (simp_all add: result_cell_def getTaskRow_def)

lemma result_cell_set_innerText_4:
  "result_cell h (set_innerText (task_row_id h) 4 txt s) =
     map_option (\<lambda>c. c\<lparr>innerText := txt\<rparr>) (result_cell h s)"
  by (cases "getTaskRow h s")
     (simp_all add: result_cell_def getTaskRow_set_innerText item_list_update_app)

lemma result_cell_set_innerText_1 [simp]:
  "result_cell h (set_innerText rid (Suc 0) txt s) = result_cell h s"
  by (cases "getTaskRow h s")
     (simp_all add: result_cell_def getTaskRow_set_innerText item_list_update_app)

lemma result_cell_set_disabled_3 [simp]:
  "result_cell h (set_disabled rid 3 v s) = result_cell h s"
  by (cases "getTaskRow h s")
     (simp_all add: result_cell_def getTaskRow_set_disabled item_list_update_app)

lemma result_cell_assign_status [simp]:
  "result_cell h (assign_innerText c rid (Suc 0) txt s) = result_cell h s"
  by (simp add: assign_innerText_def split: option.splits)

lemma result_cell_assign_result:
  "result_cell h s = c \<Longrightarrow>
   result_cell h (assign_innerText c (task_row_id h) 4 txt s) =
     map_option (\<lambda>c. c\<lparr>innerText := txt\<rparr>) c"
  by (auto simp: assign_innerText_def result_cell_set_innerText_4 split: option.splits)

subsection \<open>The control helpers never throw\<close>

lemma guarded_btn_control: "guarded_btn (getTaskRow h s) = Inr (control h s)"
  by (simp add: guarded_btn_def getTaskLoadBtn_def control_def split: option.splits)

lemma enableTaskLoadBtn_eq:
  "enableTaskLoadBtn h s =
     Inr (if control h s = None then s else set_disabled (task_row_id h) 3 False s)"
  by (simp add: enableTaskLoadBtn_def guarded_btn_control split: option.splits)

lemma disableTaskLoadBtn_eq:
  "disableTaskLoadBtn h s =
     Inr (if control h s = None then s else set_disabled (task_row_id h) 3 True s)"
  by (simp add: disableTaskLoadBtn_def guarded_btn_control split: option.splits)

lemma fetchTaskStatus_catch_eq:
  "fetchTaskStatus_catch h err s =
     Inr (if control h s = None then console_error ''Failed to fetch status'' h err s
          else set_disabled (task_row_id h) 3 False
                 (console_error ''Failed to fetch status'' h err s))"
  by (simp add: fetchTaskStatus_catch_def enableTaskLoadBtn_eq)

lemma registerFileTransformation_catch_eq:
  "registerFileTransformation_catch h err s =
     Inr (if control h s = None then console_error ''Failed to register transformation'' h err s
          else set_disabled (task_row_id h) 3 False
                 (console_error ''Failed to register transformation'' h err s))"
  by (simp add: registerFileTransformation_catch_def enableTaskLoadBtn_eq)

subsection \<open>The second callback of fetchTaskStatus, branch by branch\<close>

lemma then2_without_row:
  "getTaskRow h s = None \<Longrightarrow> fetchTaskStatus_then2 h (Data d) s = Inl (TypeError, s)"
  by (simp add: fetchTaskStatus_then2_def getTaskStatusCell_def)

lemma then2_success:
  "getTaskRow h s = Some r \<Longrightarrow> task_status d = ''SUCCESS'' \<Longrightarrow>
   fetchTaskStatus_then2 h (Data d) s =
     Inr (registerFileTransformation h
           (assign_innerText (item (cells r) 4) (task_row_id h) 4 (task_result d)
             (console_log ''Task complete!''
                [Some (task_id d), Some (task_name d), Some (task_status d), Some (task_result d)]
                (assign_innerText (item (cells r) 1) (task_row_id h) 1 (task_status d) s))))"
  by (simp add: fetchTaskStatus_then2_def getTaskStatusCell_def getTaskResultCell_def Let_def)

lemma then2_failed:
  "getTaskRow h s = Some r \<Longrightarrow> terminal_failure (task_status d) \<Longrightarrow>
   fetchTaskStatus_then2 h (Data d) s =
     Inr (assign_innerText (item (cells r) 4) (task_row_id h) 4 ''No Result''
           (console_log ''Task failed!''
              [Some (task_id d), Some (task_name d), Some (task_status d), Some (task_result d)]
              (assign_innerText (item (cells r) 1) (task_row_id h) 1 (task_status d) s)))"
  by (auto simp: fetchTaskStatus_then2_def getTaskStatusCell_def getTaskResultCell_def Let_def
        terminal_failure_def)

lemma then2_pending:
  "getTaskRow h s = Some r \<Longrightarrow> pending_status (task_status d) \<Longrightarrow>
   fetchTaskStatus_then2 h (Data d) s =
     Inr (setTimeout 1500 (task_id d) (task_name d)
           (assign_innerText (item (cells r) 4) (task_row_id h) 4 ''Pending''
             (console_log ''Task pending.''
                [Some (task_id d), Some (task_name d), Some (task_status d), Some (task_result d)]
                (assign_innerText (item (cells r) 1) (task_row_id h) 1 (task_status d) s))))"
  by (simp add: fetchTaskStatus_then2_def getTaskStatusCell_def getTaskResultCell_def Let_def
        pending_status_def)

lemma settled_with_data:
  "code = 200 \<or> code = 404 \<Longrightarrow>
   fetchTaskStatus_settled h (Response code txt (Some (Data d))) s =
     (case fetchTaskStatus_then2 h (Data d) s of
        Inl (err, s') \<Rightarrow> fetchTaskStatus_catch h err s'
      | Inr s' \<Rightarrow> Inr s')"
  by (auto simp: fetchTaskStatus_settled_def fetchTaskStatus_then1_def)

lemma scheduling_simps [simp]:
  "scheduling (Fetch m url)" "scheduling (SetTimeout ms tid tn)"
  "\<not> scheduling (ConsoleLog msg args)" "\<not> scheduling (ConsoleError msg h e)"
  "\<not> scheduling (SetDisabled rid v)" "\<not> scheduling (SetInnerText rid i txt)"
  by (simp_all add: scheduling_def)

lemma toggling_simps [simp]:
  "\<not> toggling (Fetch m url)" "\<not> toggling (SetTimeout ms tid tn)"
  "\<not> toggling (ConsoleLog msg args)" "\<not> toggling (ConsoleError msg h e)"
  "toggling (SetDisabled rid v)" "\<not> toggling (SetInnerText rid i txt)"
  by (simp_all add: toggling_def)

lemma result_cell_without_row: "getTaskRow h s = None \<Longrightarrow> result_cell h s = None"
  by (simp add: result_cell_def)

lemma control_without_row: "getTaskRow h s = None \<Longrightarrow> control h s = None"
  by (simp add: control_def)

lemma result_cell_with_row: "getTaskRow h s = Some r \<Longrightarrow> result_cell h s = item (cells r) 4"
  by (simp add: result_cell_def)

lemma page_with_simps [simp]:
  "getTaskRow h (page_with h) = Some (task_row h)"
  "result_cell h (page_with h) = Some (text_cell [])"
  "control h (page_with h) = Some \<lparr>disabled = False\<rparr>"
  "outstanding (page_with h) = []"
  "events (page_with h) = []"
  by (simp_all add: getTaskRow_def result_cell_def control_def page_with_def task_row_def
        item_def control_cell_def)

lemma page_without_simps [simp]:
  "getTaskRow h page_without = None"
  "result_cell h page_without = None"
  "control h page_without = None"
  "outstanding page_without = []"
  "events page_without = []"
  by (simp_all add: getTaskRow_def result_cell_def control_def page_without_def)


subsection \<open>Terminal failures\<close>

text \<open>
  C3. A status reply whose \<open>task_status\<close> is \<open>FAILED\<close> or \<open>NOT FOUND\<close> (served with
  200 or 404) puts the placeholder \<open>No Result\<close> into the result cell of the handle's
  row, and puts no request and no timer in flight: the outstanding list is what it
  was and no \<open>fetch\<close> or \<open>setTimeout\<close> is among the new events. The chain ends
  here. The result cell is cell 4 of the row; where the page has none, none is
  written.
\<close>

theorem failed_reply_terminates:
  assumes "terminal_failure (task_status d)" and "code = 200 \<or> code = 404"
  shows "\<exists>s'. fetchTaskStatus_settled h (Response code phrase (Some (Data d))) s = Inr s'
           \<and> result_cell h s' = map_option (\<lambda>c. c\<lparr>innerText := ''No Result''\<rparr>) (result_cell h s)
           \<and> outstanding s' = outstanding s
           \<and> filter scheduling (events s') = filter scheduling (events s)"
proof (cases "getTaskRow h s")
  case None
  then show ?thesis
    using assms(2)
    by (simp add: settled_with_data then2_without_row fetchTaskStatus_catch_eq
          result_cell_without_row control_without_row)
next
  case (Some r)
  have "result_cell h (console_log m a (assign_innerText c (task_row_id h) (Suc 0) t s)) = item (cells r) 4"
    for m a c t
    by (simp add: result_cell_with_row [OF Some])
  then show ?thesis
    using assms
    by (simp add: settled_with_data then2_failed [OF Some] result_cell_assign_result
          result_cell_with_row [OF Some] split: option.splits)
qed

theorem failed_reply_terminates_witness:
  "terminal_failure ''NOT FOUND'' \<and>
   (\<exists>s'. fetchTaskStatus_settled ''abc123''
            (Response 404 ''NOT FOUND''
              (Some (Data \<lparr>task_id = ''abc123'', task_name = ''sleeper'',
                            task_status = ''NOT FOUND'', task_result = []\<rparr>)))
            (page_with ''abc123'') = Inr s'
       \<and> result_cell ''abc123'' s' = Some (text_cell ''No Result'')
       \<and> outstanding s' = [])"
  using failed_reply_terminates
    [where d = "\<lparr>task_id = ''abc123'', task_name = ''sleeper'',
                  task_status = ''NOT FOUND'', task_result = []\<rparr>"
       and code = 404 and h = "''abc123''" and phrase = "''NOT FOUND''"
       and s = "page_with ''abc123''"]
  by (auto simp: terminal_failure_def text_cell_def)

text \<open>
  C8. The same replies leave every control as it was: no \<open>disabled\<close> flag is
  written, so a control that the loader disabled stays disabled.
\<close>

theorem failed_reply_leaves_control:
  assumes "terminal_failure (task_status d)" and "code = 200 \<or> code = 404"
  shows "\<exists>s'. fetchTaskStatus_settled h (Response code phrase (Some (Data d))) s = Inr s'
           \<and> (\<forall>k. control k s' = control k s)
           \<and> filter toggling (events s') = filter toggling (events s)"
proof (cases "getTaskRow h s")
  case None
  then show ?thesis
    using assms(2)
    by (simp add: settled_with_data then2_without_row fetchTaskStatus_catch_eq control_without_row)
next
  case (Some r)
  then show ?thesis
    using assms
    by (simp add: settled_with_data then2_failed [OF Some] split: option.splits)
qed

theorem failed_reply_leaves_control_witness:
  "terminal_failure ''FAILED'' \<and>
   (\<exists>s'. fetchTaskStatus_settled ''abc123'' (status_reply ''abc123'' ''FAILED'' [])
            (set_disabled (task_row_id ''abc123'') 3 True (page_with ''abc123'')) = Inr s'
       \<and> control ''abc123'' s' = Some \<lparr>disabled = True\<rparr>)"
  using failed_reply_leaves_control
    [where d = "\<lparr>task_id = ''abc123'', task_name = ''sleeper'',
                  task_status = ''FAILED'', task_result = []\<rparr>"
       and code = 200 and h = "''abc123''" and phrase = "''OK''"
       and s = "set_disabled (task_row_id ''abc123'') 3 True (page_with ''abc123'')"]
  by (auto simp: terminal_failure_def status_reply_def control_set_disabled)

lemma getTaskRow_prims [simp]:
  "getTaskRow k (console_log m a s) = getTaskRow k s"
  "getTaskRow k (console_error m h e s) = getTaskRow k s"
  "getTaskRow k (fetch me url p s) = getTaskRow k s"
  "getTaskRow k (setTimeout ms tid tn s) = getTaskRow k s"
  "getTaskRow k (take_off p s) = getTaskRow k s"
  by (simp_all add: getTaskRow_def)

subsection \<open>Transport failures\<close>

lemma status_failure_settled:
  "status_transport_failure resp \<Longrightarrow>
   fetchTaskStatus_settled h resp s = fetchTaskStatus_catch h (thrown resp) s"
  by (cases resp)
     (simp_all add: status_transport_failure_def fetchTaskStatus_settled_def
        fetchTaskStatus_then1_def thrown_def)

lemma register_failure_settled:
  "register_transport_failure resp \<Longrightarrow>
   registerFileTransformation_settled h resp s = registerFileTransformation_catch h (thrown resp) s"
  by (cases resp)
     (simp_all add: register_transport_failure_def registerFileTransformation_settled_def
        registerFileTransformation_then1_def thrown_def)

text \<open>
  C4. A transport failure of either request (no response at all; a status code other
  than 200 and 404 for the status request; a status code other than 201 and 400 for
  the registration request) is handled by the chain's \<^verbatim>\<open>catch\<close>: the control of
  the handle, where the page has one, is enabled; the only other new event is one
  \<^verbatim>\<open>console.error\<close>; nothing is put in flight.
\<close>

theorem transport_failure_reenables:
  "(status_transport_failure resp \<longrightarrow>
      (\<exists>s'. fetchTaskStatus_settled h resp s = Inr s'
         \<and> control h s' = map_option (\<lambda>b. b\<lparr>disabled := False\<rparr>) (control h s)
         \<and> outstanding s' = outstanding s
         \<and> events s' = events s
              @ ConsoleError ''Failed to fetch status'' h (thrown resp)
              # (if control h s = None then [] else [SetDisabled (task_row_id h) False])))
   \<and> (register_transport_failure resp' \<longrightarrow>
      (\<exists>s'. registerFileTransformation_settled h resp' s = Inr s'
         \<and> control h s' = map_option (\<lambda>b. b\<lparr>disabled := False\<rparr>) (control h s)
         \<and> outstanding s' = outstanding s
         \<and> events s' = events s
              @ ConsoleError ''Failed to register transformation'' h (thrown resp')
              # (if control h s = None then [] else [SetDisabled (task_row_id h) False])))"
  by (simp add: status_failure_settled register_failure_settled fetchTaskStatus_catch_eq
        registerFileTransformation_catch_eq control_set_disabled)

theorem transport_failure_reenables_witness:
  "status_transport_failure (Response 500 ''INTERNAL SERVER ERROR'' None)
   \<and> register_transport_failure (Rejected :: string response)
   \<and> (\<exists>s'. fetchTaskStatus_settled ''abc123'' (Response 500 ''INTERNAL SERVER ERROR'' None)
              (set_disabled (task_row_id ''abc123'') 3 True (page_with ''abc123'')) = Inr s'
         \<and> control ''abc123'' s' = Some \<lparr>disabled = False\<rparr>
         \<and> outstanding s' = []
         \<and> events s' = [SetDisabled ''ct-abc123'' True,
                ConsoleError ''Failed to fetch status'' ''abc123'' (HttpError ''INTERNAL SERVER ERROR''),
                SetDisabled ''ct-abc123'' False])
   \<and> (\<exists>s'. registerFileTransformation_settled ''abc123'' Rejected
              (set_disabled (task_row_id ''abc123'') 3 True (page_with ''abc123'')) = Inr s'
         \<and> control ''abc123'' s' = Some \<lparr>disabled = False\<rparr>
         \<and> outstanding s' = []
         \<and> events s' = [SetDisabled ''ct-abc123'' True,
                ConsoleError ''Failed to register transformation'' ''abc123'' FetchFailed,
                SetDisabled ''ct-abc123'' False])"
proof -
  have c: "control ''abc123'' (set_disabled (task_row_id ''abc123'') 3 True (page_with ''abc123''))
             = Some \<lparr>disabled = True\<rparr>"
    by (simp add: control_set_disabled)
  show ?thesis
    using c transport_failure_reenables
      [where resp = "Response 500 ''INTERNAL SERVER ERROR'' None" and resp' = Rejected
         and h = "''abc123''"
         and s = "set_disabled (task_row_id ''abc123'') 3 True (page_with ''abc123'')"]
    by (auto simp: status_transport_failure_def register_transport_failure_def thrown_def
          task_row_id_def)
qed

subsection \<open>A registration conflict\<close>

text \<open>
  C5. When the registration request is answered with 400, the chain asks once for the
  status of the same handle: one \<open>GET\<close> for that handle joins the outstanding list.
  The document is untouched, so the control is not enabled, and the console gets a
  \<^verbatim>\<open>console.log\<close>, not an error.
\<close>

theorem register_conflict_requeries:
  "\<exists>s'. registerFileTransformation_settled h (Response 400 phrase json) s = Inr s'
     \<and> outstanding s' = outstanding s @ [AwaitStatus h]
     \<and> events s' = events s @ [Fetch GET (''/digest/task/'' @ h),
                                ConsoleLog ''File registered!'' [Some h, None]]
     \<and> document s' = document s"
  by (simp add: registerFileTransformation_settled_def registerFileTransformation_then1_def
        registerFileTransformation_then2_def fetchTaskStatus_def)

subsection \<open>The loader\<close>

text \<open>
  C6. A call of the loader never throws. Within the call, the control of the handle
  (where the page has one) is disabled first, and the status request is issued
  after it: the trace of the call is the write of \<open>disabled\<close> followed by the
  \<open>fetch\<close>. Read off the document itself: where the element \<open>ct-h\<close> is a row
  whose cell 3 has a first child, the call sets \<open>disabled\<close> of that child and
  changes nothing else in the row, and no other element of the document changes.
\<close>

theorem loader_disables_before_request:
  "\<exists>s'. loadTaskStatus h s = Inr s'
     \<and> events s' = events s
          @ (if control h s = None then [] else [SetDisabled (task_row_id h) True])
          @ [Fetch GET (''/digest/task/'' @ h)]
     \<and> control h s' = map_option (\<lambda>b. b\<lparr>disabled := True\<rparr>) (control h s)
     \<and> outstanding s' = outstanding s @ [AwaitStatus h]
     \<and> (\<forall>r b. document s (''ct-'' @ h) = Some r \<and> 3 < length (cells r)
              \<and> firstChild (cells r ! 3) = Some b \<longrightarrow>
            document s' (''ct-'' @ h) =
              Some (r\<lparr>cells := (cells r)[3 := (cells r ! 3)\<lparr>firstChild := Some (b\<lparr>disabled := True\<rparr>)\<rparr>]\<rparr>)
            \<and> events s' = events s @ [SetDisabled (''ct-'' @ h) True,
                                       Fetch GET (''/digest/task/'' @ h)])
     \<and> (\<forall>k. k \<noteq> ''ct-'' @ h \<longrightarrow> document s' k = document s k)"
proof -
  let ?s1 = "if control h s = None then s else set_disabled (task_row_id h) 3 True s"
  have call: "loadTaskStatus h s = Inr (fetchTaskStatus h ?s1)"
    by (simp add: loadTaskStatus_def disableTaskLoadBtn_eq)
  have trace: "events (fetchTaskStatus h ?s1) = events s
          @ (if control h s = None then [] else [SetDisabled (task_row_id h) True])
          @ [Fetch GET (''/digest/task/'' @ h)]"
    by (simp add: fetchTaskStatus_def)
  have ctl: "control h (fetchTaskStatus h ?s1) = map_option (\<lambda>b. b\<lparr>disabled := True\<rparr>) (control h s)"
    by (simp add: fetchTaskStatus_def control_set_disabled)
  have out: "outstanding (fetchTaskStatus h ?s1) = outstanding s @ [AwaitStatus h]"
    by (simp add: fetchTaskStatus_def)
  have row: "document (fetchTaskStatus h ?s1) (''ct-'' @ h) =
              Some (r\<lparr>cells := (cells r)[3 := (cells r ! 3)\<lparr>firstChild := Some (b\<lparr>disabled := True\<rparr>)\<rparr>]\<rparr>)
            \<and> events (fetchTaskStatus h ?s1) = events s @ [SetDisabled (''ct-'' @ h) True,
                                       Fetch GET (''/digest/task/'' @ h)]"
    if "document s (''ct-'' @ h) = Some r \<and> 3 < length (cells r)
          \<and> firstChild (cells r ! 3) = Some b" for r b
  proof -
    from that have "control h s = Some b"
      by (simp add: control_def getTaskRow_def task_row_id_def item_def)
    with that show ?thesis
      by (simp add: fetchTaskStatus_def set_disabled_def update_cell_apply task_row_id_def)
  qed
  have frame: "document (fetchTaskStatus h ?s1) k = document s k" if "k \<noteq> ''ct-'' @ h" for k
    using that by (simp add: fetchTaskStatus_def task_row_id_def)
  from call trace ctl out row frame show ?thesis
    by blast
qed

theorem loader_disables_before_request_witness:
  "\<exists>s'. loadTaskStatus ''abc123''
          \<lparr>document = [''ct-abc123'' \<mapsto>
             \<lparr>cells = [\<lparr>innerText = ''abc123'', firstChild = None\<rparr>,
                       \<lparr>innerText = [], firstChild = None\<rparr>,
                       \<lparr>innerText = [], firstChild = None\<rparr>,
                       \<lparr>innerText = ''Load'', firstChild = Some \<lparr>disabled = False\<rparr>\<rparr>,
                       \<lparr>innerText = [], firstChild = None\<rparr>]\<rparr>],
           events = [], outstanding = []\<rparr> = Inr s'
     \<and> events s' = [SetDisabled ''ct-abc123'' True, Fetch GET ''/digest/task/abc123'']
     \<and> outstanding s' = [AwaitStatus ''abc123'']
     \<and> document s' ''ct-abc123'' =
          Some \<lparr>cells = [\<lparr>innerText = ''abc123'', firstChild = None\<rparr>,
                         \<lparr>innerText = [], firstChild = None\<rparr>,
                         \<lparr>innerText = [], firstChild = None\<rparr>,
                         \<lparr>innerText = ''Load'', firstChild = Some \<lparr>disabled = True\<rparr>\<rparr>,
                         \<lparr>innerText = [], firstChild = None\<rparr>]\<rparr>"
proof -
  let ?r = "\<lparr>cells = [\<lparr>innerText = ''abc123'', firstChild = None\<rparr>,
                       \<lparr>innerText = [], firstChild = None\<rparr>,
                       \<lparr>innerText = [], firstChild = None\<rparr>,
                       \<lparr>innerText = ''Load'', firstChild = Some \<lparr>disabled = False\<rparr>\<rparr>,
                       \<lparr>innerText = [], firstChild = None\<rparr>]\<rparr>"
  let ?s = "\<lparr>document = [''ct-abc123'' \<mapsto> ?r], events = [], outstanding = []\<rparr>"
  obtain s' where s': "loadTaskStatus ''abc123'' ?s = Inr s'"
      "outstanding s' = outstanding ?s @ [AwaitStatus ''abc123'']"
      "\<forall>r b. document ?s (''ct-'' @ ''abc123'') = Some r \<and> 3 < length (cells r)
              \<and> firstChild (cells r ! 3) = Some b \<longrightarrow>
            document s' (''ct-'' @ ''abc123'') =
              Some (r\<lparr>cells := (cells r)[3 := (cells r ! 3)\<lparr>firstChild := Some (b\<lparr>disabled := True\<rparr>)\<rparr>]\<rparr>)
            \<and> events s' = events ?s @ [SetDisabled (''ct-'' @ ''abc123'') True,
                                       Fetch GET (''/digest/task/'' @ ''abc123'')]"
    using loader_disables_before_request [of "''abc123''" ?s] by blast
  from s'(3) [rule_format, of ?r "\<lparr>disabled = False\<rparr>"]
  have "document s' ''ct-abc123'' =
          Some \<lparr>cells = [\<lparr>innerText = ''abc123'', firstChild = None\<rparr>,
                         \<lparr>innerText = [], firstChild = None\<rparr>,
                         \<lparr>innerText = [], firstChild = None\<rparr>,
                         \<lparr>innerText = ''Load'', firstChild = Some \<lparr>disabled = True\<rparr>\<rparr>,
                         \<lparr>innerText = [], firstChild = None\<rparr>]\<rparr>"
     and "events s' = [SetDisabled ''ct-abc123'' True, Fetch GET ''/digest/task/abc123'']"
    by simp_all
  with s'(1,2) show ?thesis
    by simp
qed

subsection \<open>A pending reply\<close>

lemma refresh_callback_outstanding [simp]:
  "outstanding (refresh_callback tid tn s) = outstanding s @ [AwaitStatus tid]"
  by (simp add: refresh_callback_def fetchTaskStatus_def)

lemma refresh_callback_events [simp]:
  "events (refresh_callback tid tn s) =
     events s @ [ConsoleLog ''Refreshing task status'' [Some tid, Some tn],
                 Fetch GET (''/digest/task/'' @ tid)]"
  by (simp add: refresh_callback_def fetchTaskStatus_def)

lemma refresh_callback_document [simp]:
  "document (refresh_callback tid tn s) = document s"
  by (simp add: refresh_callback_def fetchTaskStatus_def)

text \<open>
  C1, as amended. For a status reply whose \<open>task_status\<close> is none of \<open>SUCCESS\<close>,
  \<open>FAILED\<close>, \<open>NOT FOUND\<close>, handled while the row of the handle is in the document:
  the result cell, where the row has one, reads \<open>Pending\<close>; exactly one timer of
  1500 ms is put in flight and nothing else; and when it fires, exactly one status
  request is issued, for the \<open>task_id\<close> of the reply. That is the queried handle
  whenever the server echoes it.
\<close>

theorem pending_reply_schedules_follow_up:
  assumes "pending_status (task_status d)" and "code = 200 \<or> code = 404"
    and "getTaskRow h s = Some r"
  shows "\<exists>s'. fetchTaskStatus_settled h (Response code phrase (Some (Data d))) s = Inr s'
           \<and> result_cell h s' = map_option (\<lambda>c. c\<lparr>innerText := ''Pending''\<rparr>) (result_cell h s)
           \<and> outstanding s' = outstanding s @ [Timer 1500 (task_id d) (task_name d)]
           \<and> filter scheduling (events s') =
               filter scheduling (events s) @ [SetTimeout 1500 (task_id d) (task_name d)]
           \<and> filter scheduling (events (refresh_callback (task_id d) (task_name d) s')) =
               filter scheduling (events s') @ [Fetch GET (''/digest/task/'' @ task_id d)]"
  using assms
  by (simp add: settled_with_data then2_pending [OF assms(3)] result_cell_assign_result
        result_cell_with_row [OF assms(3)] split: option.splits)

theorem pending_reply_schedules_follow_up_witness:
  "pending_status ''PENDING'' \<and>
   (\<exists>s'. fetchTaskStatus_settled ''abc123'' (status_reply ''abc123'' ''PENDING'' [])
            (page_with ''abc123'') = Inr s'
       \<and> result_cell ''abc123'' s' = Some (text_cell ''Pending'')
       \<and> outstanding s' = [Timer 1500 ''abc123'' ''sleeper'']
       \<and> filter scheduling (events s') = [SetTimeout 1500 ''abc123'' ''sleeper'']
       \<and> filter scheduling (events (refresh_callback ''abc123'' ''sleeper'' s')) =
           [SetTimeout 1500 ''abc123'' ''sleeper'', Fetch GET ''/digest/task/abc123''])"
  using pending_reply_schedules_follow_up
    [where d = "\<lparr>task_id = ''abc123'', task_name = ''sleeper'',
                  task_status = ''PENDING'', task_result = []\<rparr>"
       and code = 200 and h = "''abc123''" and phrase = "''OK''"
       and s = "page_with ''abc123''" and r = "task_row ''abc123''"]
  by (auto simp: pending_status_def status_reply_def text_cell_def)

text \<open>
  C1 as stated says that the follow-up asks for the handle that was queried. Queried
  for \<open>abc123\<close> and answered with \<open>task_id = xyz\<close>, the script asks for \<open>xyz\<close>.
\<close>

theorem pending_follow_up_other_handle:
  "pending_status ''PENDING'' \<and>
   map_option (filter scheduling \<circ> events)
     (run [StatusSettles ''abc123'' (status_reply ''xyz'' ''PENDING'' []),
           TimerFires 1500 ''xyz'' ''sleeper'']
        (fetchTaskStatus ''abc123'' (page_with ''abc123''))) =
     Some [Fetch GET ''/digest/task/abc123'', SetTimeout 1500 ''xyz'' ''sleeper'',
           Fetch GET ''/digest/task/xyz'']"
  by code_simp

subsection \<open>A missing row\<close>

text \<open>
  C7 does not hold in \<^verbatim>\<open>fetchTaskStatus\<close>. With no row for the handle,
  \<^verbatim>\<open>getTaskRow\<close> gives \<^verbatim>\<open>null\<close>, and \<^verbatim>\<open>getTaskStatusCell\<close>, called on it
  without the guard that \<^verbatim>\<open>disableTaskLoadBtn\<close> and \<^verbatim>\<open>enableTaskLoadBtn\<close> have,
  throws. The second callback ends there and the chain's \<^verbatim>\<open>catch\<close> reports a
  failed fetch.
\<close>

theorem status_lookup_on_missing_row_throws:
  "getTaskRow ''abc123'' page_without = None
   \<and> getTaskStatusCell (getTaskRow ''abc123'' page_without) = Inl TypeError
   \<and> fetchTaskStatus_then2 ''abc123''
        (Data \<lparr>task_id = ''abc123'', task_name = ''sleeper'',
               task_status = ''PENDING'', task_result = []\<rparr>) page_without
      = Inl (TypeError, page_without)
   \<and> map_option events
        (run [StatusSettles ''abc123'' (status_reply ''abc123'' ''PENDING'' [])]
           (fetchTaskStatus ''abc123'' page_without)) =
      Some [Fetch GET ''/digest/task/abc123'',
            ConsoleError ''Failed to fetch status'' ''abc123'' TypeError]"
proof -
  have row: "getTaskRow ''abc123'' page_without = None"
    by simp
  have helper: "getTaskStatusCell (getTaskRow ''abc123'' page_without) = Inl TypeError"
    by (simp add: getTaskStatusCell_def)
  have callback: "fetchTaskStatus_then2 ''abc123''
        (Data \<lparr>task_id = ''abc123'', task_name = ''sleeper'',
               task_status = ''PENDING'', task_result = []\<rparr>) page_without
      = Inl (TypeError, page_without)"
    by (simp add: then2_without_row)
  have chain: "map_option events
        (run [StatusSettles ''abc123'' (status_reply ''abc123'' ''PENDING'' [])]
           (fetchTaskStatus ''abc123'' page_without)) =
      Some [Fetch GET ''/digest/task/abc123'',
            ConsoleError ''Failed to fetch status'' ''abc123'' TypeError]"
    by code_simp
  show ?thesis
    by (intro conjI row helper callback chain)
qed

text \<open>
  C2 does not hold on a page without the row: the exception of the cell lookup comes
  before the \<^verbatim>\<open>switch\<close>, so a \<open>SUCCESS\<close> reply issues no registration request.
\<close>

theorem success_reply_on_missing_row:
  "map_option outstanding
     (run [StatusSettles ''abc123'' (status_reply ''abc123'' ''SUCCESS'' ''done'')]
        (fetchTaskStatus ''abc123'' page_without)) = Some []
   \<and> map_option (filter scheduling \<circ> events)
     (run [StatusSettles ''abc123'' (status_reply ''abc123'' ''SUCCESS'' ''done'')]
        (fetchTaskStatus ''abc123'' page_without)) = Some [Fetch GET ''/digest/task/abc123'']"
  by code_simp

text \<open>
  With the row in the document a \<open>SUCCESS\<close> reply does what C2 says: the result cell
  takes \<open>task_result\<close>, one registration request for the handle is issued, and
  nothing else is put in flight.
\<close>

lemma success_reply_registers:
  assumes "task_status d = ''SUCCESS''" and "code = 200 \<or> code = 404"
    and "getTaskRow h s = Some r"
  shows "\<exists>s'. fetchTaskStatus_settled h (Response code phrase (Some (Data d))) s = Inr s'
           \<and> result_cell h s' = map_option (\<lambda>c. c\<lparr>innerText := task_result d\<rparr>) (result_cell h s)
           \<and> outstanding s' = outstanding s @ [AwaitRegister h]
           \<and> filter scheduling (events s') =
               filter scheduling (events s) @ [Fetch POST (''/digest/cp/register/'' @ h)]"
  using assms
  by (simp add: settled_with_data then2_success [OF assms(3)] result_cell_assign_result
        result_cell_with_row [OF assms(3)] registerFileTransformation_def split: option.splits)

subsection \<open>Every chain ends handled, adds at most one outstanding item, writes one row\<close>

lemma status_cases:
  obtains (success) "task_status d = ''SUCCESS''"
  | (failure) "terminal_failure (task_status d)"
  | (pending) "pending_status (task_status d)"
  by (auto simp: terminal_failure_def pending_status_def)

lemma fetchTaskStatus_catch_shape:
  "\<exists>s'. fetchTaskStatus_catch h e s = Inr s' \<and> outstanding s' = outstanding s
     \<and> (\<forall>k. k \<noteq> task_row_id h \<longrightarrow> document s' k = document s k)"
  by (simp add: fetchTaskStatus_catch_eq)

lemma registerFileTransformation_catch_shape:
  "\<exists>s'. registerFileTransformation_catch h e s = Inr s' \<and> outstanding s' = outstanding s
     \<and> (\<forall>k. k \<noteq> task_row_id h \<longrightarrow> document s' k = document s k)"
  by (simp add: registerFileTransformation_catch_eq)

lemma fetchTaskStatus_then2_shape:
  "(\<exists>e. fetchTaskStatus_then2 h res s = Inl (e, s)) \<or>
   (\<exists>s' extra. fetchTaskStatus_then2 h res s = Inr s'
      \<and> outstanding s' = outstanding s @ extra \<and> length extra \<le> 1
      \<and> (\<forall>k. k \<noteq> task_row_id h \<longrightarrow> document s' k = document s k))"
proof (cases res)
  case NoData
  then show ?thesis
    by (simp add: fetchTaskStatus_then2_def)
next
  case (Data d)
  show ?thesis
  proof (cases "getTaskRow h s")
    case None
    then show ?thesis
      by (simp add: Data then2_without_row)
  next
    case (Some r)
    show ?thesis
    proof (cases d rule: status_cases)
      case success
      then show ?thesis
        by (simp add: Data then2_success [OF Some] registerFileTransformation_def)
    next
      case failure
      then show ?thesis
        by (simp add: Data then2_failed [OF Some])
    next
      case pending
      then show ?thesis
        by (simp add: Data then2_pending [OF Some])
    qed
  qed
qed

lemma fetchTaskStatus_settled_shape:
  "\<exists>s' extra. fetchTaskStatus_settled h resp s = Inr s'
     \<and> outstanding s' = outstanding s @ extra \<and> length extra \<le> 1
     \<and> (\<forall>k. k \<noteq> task_row_id h \<longrightarrow> document s' k = document s k)"
proof -
  have handled: "\<exists>s' extra. fetchTaskStatus_catch h e s = Inr s'
     \<and> outstanding s' = outstanding s @ extra \<and> length extra \<le> 1
     \<and> (\<forall>k. k \<noteq> task_row_id h \<longrightarrow> document s' k = document s k)" for e
    using fetchTaskStatus_catch_shape [of h e s] by auto
  show ?thesis
  proof (cases resp)
    case Rejected
    then show ?thesis
      using handled [of FetchFailed] by (simp add: fetchTaskStatus_settled_def)
  next
    case (Response code phrase json)
    show ?thesis
    proof (cases "fetchTaskStatus_then1 code phrase json")
      case (Inl e)
      then show ?thesis
        using handled [of e] by (simp add: Response fetchTaskStatus_settled_def)
    next
      case (Inr res)
      from fetchTaskStatus_then2_shape [of h res s] show ?thesis
      proof
        assume "\<exists>e. fetchTaskStatus_then2 h res s = Inl (e, s)"
        then obtain e where "fetchTaskStatus_then2 h res s = Inl (e, s)" ..
        then show ?thesis
          using handled [of e] by (simp add: Response Inr fetchTaskStatus_settled_def)
      next
        assume "\<exists>s' extra. fetchTaskStatus_then2 h res s = Inr s'
          \<and> outstanding s' = outstanding s @ extra \<and> length extra \<le> 1
          \<and> (\<forall>k. k \<noteq> task_row_id h \<longrightarrow> document s' k = document s k)"
        then show ?thesis
          by (auto simp: Response Inr fetchTaskStatus_settled_def)
      qed
    qed
  qed
qed

lemma registerFileTransformation_settled_shape:
  "\<exists>s' extra. registerFileTransformation_settled h resp s = Inr s'
     \<and> outstanding s' = outstanding s @ extra \<and> length extra \<le> 1
     \<and> (\<forall>k. k \<noteq> task_row_id h \<longrightarrow> document s' k = document s k)"
proof -
  have handled: "\<exists>s' extra. registerFileTransformation_catch h e s = Inr s'
     \<and> outstanding s' = outstanding s @ extra \<and> length extra \<le> 1
     \<and> (\<forall>k. k \<noteq> task_row_id h \<longrightarrow> document s' k = document s k)" for e
    using registerFileTransformation_catch_shape [of h e s] by auto
  show ?thesis
  proof (cases resp)
    case Rejected
    then show ?thesis
      using handled [of FetchFailed] by (simp add: registerFileTransformation_settled_def)
  next
    case (Response code phrase json)
    consider (created) res where "code = 201" "json = Some res"
      | (unparsed) "code = 201" "json = None"
      | (conflict) "code = 400"
      | (other) "code \<noteq> 201" "code \<noteq> 400"
      by (cases json) auto
    then show ?thesis
    proof cases
      case created
      then show ?thesis
        by (simp add: Response registerFileTransformation_settled_def
              registerFileTransformation_then1_def registerFileTransformation_then2_def)
    next
      case unparsed
      then show ?thesis
        using handled [of SyntaxError]
        by (simp add: Response registerFileTransformation_settled_def
              registerFileTransformation_then1_def)
    next
      case conflict
      then show ?thesis
        by (simp add: Response registerFileTransformation_settled_def
              registerFileTransformation_then1_def registerFileTransformation_then2_def
              fetchTaskStatus_def)
    next
      case other
      then show ?thesis
        using handled [of "HttpError phrase"]
        by (simp add: Response registerFileTransformation_settled_def
              registerFileTransformation_then1_def)
    qed
  qed
qed

subsection \<open>The event loop never grows the outstanding list\<close>

lemma length_take_off:
  "p \<in> set (outstanding s) \<Longrightarrow> Suc (length (outstanding (take_off p s))) = length (outstanding s)"
proof -
  assume "p \<in> set (outstanding s)"
  then have "0 < length (outstanding s)"
    by (cases "outstanding s") auto
  with \<open>p \<in> set (outstanding s)\<close> show ?thesis
    by (simp add: length_remove1)
qed

lemma step_outstanding:
  assumes "step occ s = Some s'"
  shows "length (outstanding s') \<le> length (outstanding s)"
proof (cases occ)
  case (StatusSettles h resp)
  with assms have pending: "AwaitStatus h \<in> set (outstanding s)"
    by (simp split: if_splits)
  obtain t extra where
    "fetchTaskStatus_settled h resp (take_off (AwaitStatus h) s) = Inr t"
    "outstanding t = outstanding (take_off (AwaitStatus h) s) @ extra" "length extra \<le> 1"
    using fetchTaskStatus_settled_shape [of h resp "take_off (AwaitStatus h) s"] by blast
  with assms pending StatusSettles length_take_off [OF pending] show ?thesis
    by auto
next
  case (RegisterSettles h resp)
  with assms have pending: "AwaitRegister h \<in> set (outstanding s)"
    by (simp split: if_splits)
  obtain t extra where
    "registerFileTransformation_settled h resp (take_off (AwaitRegister h) s) = Inr t"
    "outstanding t = outstanding (take_off (AwaitRegister h) s) @ extra" "length extra \<le> 1"
    using registerFileTransformation_settled_shape [of h resp "take_off (AwaitRegister h) s"]
    by blast
  with assms pending RegisterSettles length_take_off [OF pending] show ?thesis
    by auto
next
  case (TimerFires ms tid tn)
  with assms have pending: "Timer ms tid tn \<in> set (outstanding s)"
    by (simp split: if_splits)
  with assms TimerFires length_take_off [OF pending] show ?thesis
    by auto
qed

lemma run_outstanding:
  "run occs s = Some s' \<Longrightarrow> length (outstanding s') \<le> length (outstanding s)"
proof (induction occs arbitrary: s)
  case Nil
  then show ?case by simp
next
  case (Cons occ occs)
  then obtain t where "step occ s = Some t" "run occs t = Some s'"
    by (auto split: option.splits)
  with Cons.IH [of t] step_outstanding [of occ s t] show ?case
    by simp
qed

subsection \<open>One chain\<close>

text \<open>
  C9. Start from a page with nothing in flight and call the loader once. Whatever
  the server answers and whenever the timers fire, at every moment of the chain at
  most one item is outstanding: one status request, or one registration request, or
  one timer. So no status request is issued while another is in flight; the next
  one comes from the continuation that took the previous item off the list.
\<close>

theorem polling_chain_is_serial:
  assumes "outstanding s = []" and "loadTaskStatus h s = Inr s1" and "run occs s1 = Some s'"
  shows "length (filter is_status_request (outstanding s')) \<le> 1 \<and> length (outstanding s') \<le> 1"
proof -
  have "outstanding s1 = [AwaitStatus h]"
    using assms(1,2)
    by (auto simp: loadTaskStatus_def disableTaskLoadBtn_eq fetchTaskStatus_def split: if_splits)
  with run_outstanding [OF assms(3)] have all: "length (outstanding s') \<le> 1"
    by simp
  have "length (filter is_status_request (outstanding s')) \<le> length (outstanding s')"
    by (rule length_filter_le)
  from this all have "length (filter is_status_request (outstanding s')) \<le> 1"
    by (rule le_trans)
  with all show ?thesis
    by (intro conjI)
qed

theorem polling_chain_is_serial_witness:
  "outstanding (page_with ''abc123'') = []
   \<and> loadTaskStatus ''abc123'' (page_with ''abc123'')
       = Inr (fetchTaskStatus ''abc123''
               (set_disabled (task_row_id ''abc123'') 3 True (page_with ''abc123'')))
   \<and> map_option outstanding
       (run [StatusSettles ''abc123'' (status_reply ''abc123'' ''PENDING'' []),
             TimerFires 1500 ''abc123'' ''sleeper'',
             StatusSettles ''abc123'' (status_reply ''abc123'' ''SUCCESS'' ''done''),
             RegisterSettles ''abc123'' (Response 400 ''BAD REQUEST'' None)]
          (fetchTaskStatus ''abc123''
            (set_disabled (task_row_id ''abc123'') 3 True (page_with ''abc123''))))
       = Some [AwaitStatus ''abc123'']
   \<and> length (filter is_status_request [AwaitStatus ''abc123'']) \<le> 1"
proof -
  let ?s1 = "fetchTaskStatus ''abc123''
               (set_disabled (task_row_id ''abc123'') 3 True (page_with ''abc123''))"
  let ?occs = "[StatusSettles ''abc123'' (status_reply ''abc123'' ''PENDING'' []),
             TimerFires 1500 ''abc123'' ''sleeper'',
             StatusSettles ''abc123'' (status_reply ''abc123'' ''SUCCESS'' ''done''),
             RegisterSettles ''abc123'' (Response 400 ''BAD REQUEST'' None)]"
  have quiet: "outstanding (page_with ''abc123'') = []"
    by simp
  have loaded: "loadTaskStatus ''abc123'' (page_with ''abc123'') = Inr ?s1"
    by (simp add: loadTaskStatus_def disableTaskLoadBtn_eq)
  have ran: "map_option outstanding (run ?occs ?s1) = Some [AwaitStatus ''abc123'']"
    by code_simp
  then obtain s' where s': "run ?occs ?s1 = Some s'" "outstanding s' = [AwaitStatus ''abc123'']"
    by auto
  from polling_chain_is_serial [OF quiet loaded s'(1)] s'(2)
  have "length (filter is_status_request [AwaitStatus ''abc123'']) \<le> 1"
    by simp
  with quiet loaded ran show ?thesis
    by (intro conjI)
qed

subsection \<open>The chain follows the reply\<close>

lemma pending_reply_shape:
  assumes "pending_status (task_status d)" and "code = 200 \<or> code = 404"
    and "getTaskRow h s = Some r"
  shows "\<exists>s'. fetchTaskStatus_settled h (Response code phrase (Some (Data d))) s = Inr s'
           \<and> outstanding s' = outstanding s @ [Timer 1500 (task_id d) (task_name d)]
           \<and> filter scheduling (events s') =
               filter scheduling (events s) @ [SetTimeout 1500 (task_id d) (task_name d)]"
  using assms
  by (simp add: settled_with_data then2_pending [OF assms(3)] split: option.splits)

text \<open>
  C10. When a pending reply reschedules, the follow-up request is for the \<open>task_id\<close>
  of the reply, not for the handle that was queried. After the timer has fired the
  one outstanding request is the one for \<open>task_id\<close>; if that differs from the
  handle, no request for the handle is left; and the continuation of the new
  request looks up, and writes, the row of \<open>task_id\<close> only.
\<close>

theorem pending_chain_follows_reply_task_id:
  assumes "pending_status (task_status d)" and "code = 200 \<or> code = 404"
    and "getTaskRow h s = Some r" and "outstanding s = []"
  shows "\<exists>s2. run [StatusSettles h (Response code phrase (Some (Data d))),
                    TimerFires 1500 (task_id d) (task_name d)] (fetchTaskStatus h s) = Some s2
           \<and> outstanding s2 = [AwaitStatus (task_id d)]
           \<and> filter scheduling (events s2) =
               filter scheduling (events s)
               @ [Fetch GET (''/digest/task/'' @ h), SetTimeout 1500 (task_id d) (task_name d),
                  Fetch GET (''/digest/task/'' @ task_id d)]
           \<and> (\<forall>resp. task_id d \<noteq> h \<longrightarrow> step (StatusSettles h resp) s2 = None)
           \<and> (\<forall>resp s3 k. step (StatusSettles (task_id d) resp) s2 = Some s3
                 \<longrightarrow> k \<noteq> task_row_id (task_id d) \<longrightarrow> document s3 k = document s2 k)"
proof -
  let ?s0 = "take_off (AwaitStatus h) (fetchTaskStatus h s)"
  have row: "getTaskRow h ?s0 = Some r"
    using assms(3) by (simp add: fetchTaskStatus_def)
  have out0: "outstanding ?s0 = []"
    using assms(4) by (simp add: fetchTaskStatus_def)
  have ev0: "events ?s0 = events s @ [Fetch GET (''/digest/task/'' @ h)]"
    by (simp add: fetchTaskStatus_def)
  obtain s1 where s1: "fetchTaskStatus_settled h (Response code phrase (Some (Data d))) ?s0 = Inr s1"
    "outstanding s1 = [Timer 1500 (task_id d) (task_name d)]"
    "filter scheduling (events s1) =
       filter scheduling (events s) @ [Fetch GET (''/digest/task/'' @ h),
          SetTimeout 1500 (task_id d) (task_name d)]"
    using pending_reply_shape [OF assms(1,2) row] out0 ev0 by auto
  let ?s2 = "refresh_callback (task_id d) (task_name d)
               (take_off (Timer 1500 (task_id d) (task_name d)) s1)"
  have step1: "step (StatusSettles h (Response code phrase (Some (Data d)))) (fetchTaskStatus h s) = Some s1"
    using s1(1) by (simp add: fetchTaskStatus_def [of h s, symmetric] fetchTaskStatus_def)
  have step2: "step (TimerFires 1500 (task_id d) (task_name d)) s1 = Some ?s2"
    using s1(2) by simp
  have run2: "run [StatusSettles h (Response code phrase (Some (Data d))),
                    TimerFires 1500 (task_id d) (task_name d)] (fetchTaskStatus h s) = Some ?s2"
    using step1 step2 by simp
  have out2: "outstanding ?s2 = [AwaitStatus (task_id d)]"
    using s1(2) by simp
  have ev2: "filter scheduling (events ?s2) =
               filter scheduling (events s)
               @ [Fetch GET (''/digest/task/'' @ h), SetTimeout 1500 (task_id d) (task_name d),
                  Fetch GET (''/digest/task/'' @ task_id d)]"
    using s1(3) by simp
  have gone: "task_id d \<noteq> h \<longrightarrow> step (StatusSettles h resp) ?s2 = None" for resp
    using out2 by simp
  have frame: "step (StatusSettles (task_id d) resp) ?s2 = Some s3
                 \<longrightarrow> k \<noteq> task_row_id (task_id d) \<longrightarrow> document s3 k = document ?s2 k" for resp s3 k
    using fetchTaskStatus_settled_shape
            [of "task_id d" resp "take_off (AwaitStatus (task_id d)) ?s2"]
    by (auto split: if_splits)
  from run2 out2 ev2 gone frame show ?thesis
    by blast
qed

theorem pending_chain_follows_reply_task_id_witness:
  "pending_status ''PENDING''
   \<and> getTaskRow ''abc123'' (page_with ''abc123'') = Some (task_row ''abc123'')
   \<and> outstanding (page_with ''abc123'') = []
   \<and> (\<exists>s2. run [StatusSettles ''abc123'' (status_reply ''xyz'' ''PENDING'' []),
                  TimerFires 1500 ''xyz'' ''sleeper'']
               (fetchTaskStatus ''abc123'' (page_with ''abc123'')) = Some s2
          \<and> outstanding s2 = [AwaitStatus ''xyz'']
          \<and> filter scheduling (events s2) =
              [Fetch GET ''/digest/task/abc123'', SetTimeout 1500 ''xyz'' ''sleeper'',
               Fetch GET ''/digest/task/xyz'']
          \<and> (\<forall>resp. step (StatusSettles ''abc123'' resp) s2 = None))"
proof -
  let ?d = "\<lparr>task_id = ''xyz'', task_name = ''sleeper'',
              task_status = ''PENDING'', task_result = []\<rparr>"
  have status: "pending_status ''PENDING''"
    by (simp add: pending_status_def)
  have row: "getTaskRow ''abc123'' (page_with ''abc123'') = Some (task_row ''abc123'')"
    by simp
  have quiet: "outstanding (page_with ''abc123'') = []"
    by simp
  have "\<exists>s2. run [StatusSettles ''abc123'' (status_reply ''xyz'' ''PENDING'' []),
                  TimerFires 1500 ''xyz'' ''sleeper'']
               (fetchTaskStatus ''abc123'' (page_with ''abc123'')) = Some s2
          \<and> outstanding s2 = [AwaitStatus ''xyz'']
          \<and> filter scheduling (events s2) =
              [Fetch GET ''/digest/task/abc123'', SetTimeout 1500 ''xyz'' ''sleeper'',
               Fetch GET ''/digest/task/xyz'']
          \<and> (\<forall>resp. step (StatusSettles ''abc123'' resp) s2 = None)"
    using status pending_chain_follows_reply_task_id
      [where d = ?d and code = 200 and phrase = "''OK''", OF _ _ row quiet]
    by (simp add: status_reply_def del: run.simps step.simps) blast
  with status row quiet show ?thesis
    by (intro conjI)
qed

end
